theory Spec2Isabelle
  imports Complex_Main "HOL-Library.Sublist"
begin

section \<open>The recorder page of mymcp-saas (recorder.py)\<close>

text \<open>
  The recorder page is a Streamlit script: every function reads and writes the per-user
  dictionary \<^verbatim>\<open>st.session_state\<close>, talks to the backend through \<^verbatim>\<open>requests\<close>, prints with
  \<^verbatim>\<open>st.success\<close>, \<^verbatim>\<open>st.error\<close>, ... and (when saving a tool) writes files. The embedding makes
  all of this explicit: a \<open>world\<close> record carries the session dictionary and three
  logs (what was displayed, which requests were issued, which file operations were
  attempted), and an \<open>env\<close> record says how the outside answers (the backend, the clock,
  the random generator, the file system). Every \<^verbatim>\<open>try/except\<close> of the source is a case
  distinction on a value of type \<open>exn + 'a\<close>.
\<close>

subsection \<open>Python values, as \<^verbatim>\<open>response.json()\<close> returns them\<close>

text \<open>
  A dictionary is an association list read with \<open>map_of\<close>. A Python float is the real
  number it denotes, an infinity (\<open>Infinite True\<close> is the positive one) or NaN, which
  \<^verbatim>\<open>json.loads\<close> accepts as well. A character is a code point below 256.
\<close>

datatype pyfloat = Finite real | Infinite bool | NaN

datatype json =
    JNull
  | JBool bool
  | JInt int
  | JFloat pyfloat
  | JStr string
  | JArr "json list"
  | JObj "(string \<times> json) list"

datatype exn =
    Timeout
  | ConnectionError
  | RequestException string
  | JSONDecodeError
  | KeyError string
  | TypeError
  | AttributeError
  | OSError
  | UnboundLocalError

text \<open>Truth value testing (\<^verbatim>\<open>if x\<close>, \<^verbatim>\<open>not x\<close>).\<close>

fun py_truthy :: "json \<Rightarrow> bool" where
  "py_truthy JNull = False"
| "py_truthy (JBool b) = b"
| "py_truthy (JInt n) = (n \<noteq> 0)"
| "py_truthy (JFloat x) = (x \<noteq> Finite 0)"
| "py_truthy (JStr s) = (s \<noteq> [])"
| "py_truthy (JArr xs) = (xs \<noteq> [])"
| "py_truthy (JObj kvs) = (kvs \<noteq> [])"

text \<open>\<^verbatim>\<open>a and b\<close> returns one of its operands.\<close>

definition py_and :: "json \<Rightarrow> json \<Rightarrow> json" where
  "py_and a b = (if py_truthy a then b else a)"

text \<open>\<^verbatim>\<open>d.get(k, default)\<close>: only a dict has the method.\<close>

fun py_get :: "json \<Rightarrow> string \<Rightarrow> json \<Rightarrow> exn + json" where
  "py_get (JObj kvs) k dflt = Inr (case map_of kvs k of Some v \<Rightarrow> v | None \<Rightarrow> dflt)"
| "py_get _ k dflt = Inl AttributeError"

text \<open>\<^verbatim>\<open>d[k]\<close> with a string key: a missing key is a KeyError, anything but a dict a TypeError.\<close>

fun py_item :: "json \<Rightarrow> string \<Rightarrow> exn + json" where
  "py_item (JObj kvs) k = (case map_of kvs k of Some v \<Rightarrow> Inr v | None \<Rightarrow> Inl (KeyError k))"
| "py_item _ k = Inl TypeError"

text \<open>\<^verbatim>\<open>len(x)\<close>: lists, strings and dicts have a length.\<close>

fun py_len :: "json \<Rightarrow> exn + nat" where
  "py_len (JArr xs) = Inr (length xs)"
| "py_len (JStr s) = Inr (length s)"
| "py_len (JObj kvs) = Inr (length (remdups (map fst kvs)))"
| "py_len _ = Inl TypeError"

text \<open>
  \<^verbatim>\<open>x[-5:]\<close> followed by iteration: the last five elements of a list, the last five
  characters of a string (each a string of length one). A dict cannot be sliced
  (TypeError; KeyError from Python 3.12 on, caught by the same handler).
\<close>

fun py_last5 :: "json \<Rightarrow> exn + json list" where
  "py_last5 (JArr xs) = Inr (drop (length xs - 5) xs)"
| "py_last5 (JStr s) = Inr (map (\<lambda>c. JStr [c]) (drop (length s - 5) s))"
| "py_last5 _ = Inl TypeError"

subsection \<open>Formatted strings\<close>

text \<open>
  An f-string is kept as the list of its pieces: literal text, and the values formatted
  into it (a JSON value, \<^verbatim>\<open>str(e)\<close> of an exception, or a float quotient). What \<^verbatim>\<open>str\<close> prints for a value is
  not modelled. The pictographs and arrows in the messages of the source are not ASCII:
  they are left out of the literals, with the blank that follows them.
\<close>

datatype frag = Lit string | Fmt json | FmtExn exn | FmtFloorDiv pyfloat int

type_synonym fstring = "frag list"

text \<open>
  \<^verbatim>\<open>x // d\<close> inside an f-string: numbers only (\<^verbatim>\<open>bool\<close> is a subclass of \<^verbatim>\<open>int\<close>). The
  quotient of an int is computed. For a float the piece \<open>FmtFloorDiv x d\<close> stands for
  what Python's floor division on doubles gives; it never raises for a divisor that is
  not zero, and its value is not computed here.
\<close>

fun py_floordiv :: "json \<Rightarrow> int \<Rightarrow> exn + frag" where
  "py_floordiv (JInt n) d = Inr (Fmt (JInt (n div d)))"
| "py_floordiv (JBool b) d = Inr (Fmt (JInt ((if b then 1 else 0) div d)))"
| "py_floordiv (JFloat x) d = Inr (FmtFloorDiv x d)"
| "py_floordiv _ d = Inl TypeError"

subsection \<open>The outside world\<close>

datatype http_verb = GET | POST | DELETE

record request =
  verb :: http_verb
  url :: fstring
  json_payload :: "json option"
  timeout :: nat

text \<open>
  A response, as far as the page reads it: \<open>json_result\<close> is \<open>None\<close> when
  \<^verbatim>\<open>response.json()\<close> raises, \<open>content_type\<close> is \<^verbatim>\<open>response.headers.get('content-type')\<close>.
\<close>

record response =
  status_code :: int
  content_type :: "string option"
  body_text :: string
  json_result :: "json option"

datatype http_outcome = Raises exn | Responds response

datatype file_content = Text fstring | Json_dump json nat

datatype fs_op = Makedirs string | Write_file string file_content

datatype ui_event =
    St_success fstring
  | St_error fstring
  | St_info fstring
  | St_warning fstring
  | St_write fstring
  | St_markdown fstring
  | St_code json
  | St_download_button fstring fstring
  | St_balloons
  | St_exception exn

record env =
  backend :: "request \<Rightarrow> http_outcome"
  strftime_register :: string
  strftime_local :: string
  random_draws :: "nat \<Rightarrow> nat"
  module_dir :: string
  fs_succeeds :: "fs_op \<Rightarrow> bool"

record world =
  session_state :: "string \<rightharpoonup> json"
  ui :: "ui_event list"
  requests :: "request list"
  fs_ops :: "fs_op list"

definition display :: "ui_event \<Rightarrow> world \<Rightarrow> world" where
  "display ev w = w\<lparr>ui := ui w @ [ev]\<rparr>"

definition issue :: "request \<Rightarrow> world \<Rightarrow> world" where
  "issue rq w = w\<lparr>requests := requests w @ [rq]\<rparr>"

text \<open>\<^verbatim>\<open>response.json()\<close>\<close>

definition response_json :: "response \<Rightarrow> exn + json" where
  "response_json r = (case json_result r of None \<Rightarrow> Inl JSONDecodeError | Some v \<Rightarrow> Inr v)"

definition BACKEND_API_URL :: string where
  "BACKEND_API_URL = ''http://localhost:8100''"

subsection \<open>\<^verbatim>\<open>check_extension_connection\<close>\<close>

record connection_status =
  api_connected :: json
  websocket_ready :: json
  fully_connected :: json
  recording_ready :: json
  tool_execution_ready :: json

definition all_false :: connection_status where
  "all_false = \<lparr>api_connected = JBool False, websocket_ready = JBool False,
     fully_connected = JBool False, recording_ready = JBool False,
     tool_execution_ready = JBool False\<rparr>"

definition status_request :: request where
  "status_request = \<lparr>verb = GET, url = [Lit BACKEND_API_URL, Lit ''/extension/status''],
     json_payload = None, timeout = 2\<rparr>"

text \<open>The body of the \<^verbatim>\<open>try\<close> up to the two local variables.\<close>

definition read_status :: "http_outcome \<Rightarrow> exn + json \<times> json" where
  "read_status out =
     (case out of
        Raises x \<Rightarrow> Inl x
      | Responds r \<Rightarrow>
          if status_code r = 200 then
            (case response_json r of
               Inl x \<Rightarrow> Inl x
             | Inr status_data \<Rightarrow>
                 (case py_get status_data ''connected'' (JBool False) of
                    Inl x \<Rightarrow> Inl x
                  | Inr api \<Rightarrow>
                      (case py_get status_data ''websocketReady'' (JBool False) of
                         Inl x \<Rightarrow> Inl x
                       | Inr ws \<Rightarrow> Inr (api, ws))))
          else Inr (JBool False, JBool False))"

definition check_extension_connection :: "env \<Rightarrow> world \<Rightarrow> connection_status \<times> world" where
  "check_extension_connection e w =
     (let w1 = issue status_request w in
      case read_status (backend e status_request) of
        Inl x \<Rightarrow> (all_false, w1)
      | Inr (api, ws) \<Rightarrow>
          (\<lparr>api_connected = api, websocket_ready = ws, fully_connected = api,
            recording_ready = api, tool_execution_ready = py_and api ws\<rparr>, w1))"

subsection \<open>\<^verbatim>\<open>start_recording_with_extension\<close>\<close>

definition start_request :: "string \<Rightarrow> string \<Rightarrow> request" where
  "start_request session_name description =
     \<lparr>verb = POST, url = [Lit BACKEND_API_URL, Lit ''/recorder/start''],
      json_payload = Some (JObj [(''sessionName'', JStr session_name),
                                 (''description'', JStr description)]),
      timeout = 10\<rparr>"

definition recording_started_notes :: "ui_event list" where
  "recording_started_notes =
     [St_info [Lit ''**Recording started!** Now perform actions in your connected browser tab. The extension will automatically capture:''],
      St_markdown [Lit ''\<newline>            - **Navigation** (page changes, URL updates)\<newline>            - **Clicks** (buttons, links, form elements) \<newline>            - **Typing** (form inputs, text fields)\<newline>            - **Form interactions** (dropdowns, checkboxes)\<newline>            - **Page waits** (loading, delays)\<newline>            ''],
      St_warning [Lit ''**Important**: Make sure your browser extension is connected and active before performing actions!'']]"

text \<open>
  The body of the \<^verbatim>\<open>try\<close>. On status 200 the two session keys are stored before the
  message of the response is read.
\<close>

definition start_body :: "http_outcome \<Rightarrow> string \<Rightarrow> world \<Rightarrow> (exn + unit) \<times> world" where
  "start_body out session_name w =
     (case out of
        Raises x \<Rightarrow> (Inl x, w)
      | Responds r \<Rightarrow>
          if status_code r = 200 then
            (case response_json r of
               Inl x \<Rightarrow> (Inl x, w)
             | Inr data \<Rightarrow>
                 (case py_item data ''sessionId'' of
                    Inl x \<Rightarrow> (Inl x, w)
                  | Inr sid \<Rightarrow>
                      let w1 = w\<lparr>session_state := (session_state w)
                                 (''recording_session_id'' \<mapsto> sid,
                                  ''recording_session_name'' \<mapsto> JStr session_name)\<rparr>
                      in (case py_item data ''message'' of
                            Inl x \<Rightarrow> (Inl x, w1)
                          | Inr msg \<Rightarrow>
                              (Inr (), fold display
                                 (St_success [Fmt msg] # recording_started_notes) w1))))
          else
            (case (if content_type r = Some ''application/json'' then response_json r
                   else Inr (JObj [(''error'', JStr (body_text r))])) of
               Inl x \<Rightarrow> (Inl x, w)
             | Inr error_data \<Rightarrow>
                 (case py_get error_data ''error'' (JStr ''Unknown error'') of
                    Inl x \<Rightarrow> (Inl x, w)
                  | Inr err \<Rightarrow>
                      (Inr (), display (St_error [Lit ''Failed to start recording: '', Fmt err]) w))))"

definition start_recording_with_extension :: "env \<Rightarrow> string \<Rightarrow> string \<Rightarrow> world \<Rightarrow> world" where
  "start_recording_with_extension e session_name description w =
     (let rq = start_request session_name description in
      case start_body (backend e rq) session_name (issue rq w) of
        (Inl x, w1) \<Rightarrow> display (St_error [Lit ''Error starting recording: '', FmtExn x]) w1
      | (Inr u, w1) \<Rightarrow> w1)"

subsection \<open>The start button of \<^verbatim>\<open>show_recorder_interface\<close>\<close>

text \<open>
  Of the page function only the connection check (lines 237-238) and the start button
  with its handler (lines 339-352) are modelled. \<open>pressed\<close> is what \<^verbatim>\<open>st.button\<close> returns;
  \<open>start_button_disabled\<close> is the flag the button is rendered with. Nothing is assumed
  about what Streamlit returns for a disabled button: the handler checks again.
\<close>

definition start_button_disabled :: "connection_status \<Rightarrow> string \<Rightarrow> bool" where
  "start_button_disabled connection_status session_name =
     (\<not> py_truthy (recording_ready connection_status) \<or> session_name = [])"

definition show_recorder_interface_start ::
    "env \<Rightarrow> string \<Rightarrow> string \<Rightarrow> bool \<Rightarrow> world \<Rightarrow> world" where
  "show_recorder_interface_start e session_name session_description pressed w =
     (case check_extension_connection e w of
        (connection_status, w1) \<Rightarrow>
          let is_fully_connected = fully_connected connection_status;
              disabled = start_button_disabled connection_status session_name in
          if pressed then
            (if session_name = [] then
               display (St_error [Lit ''Please enter a session name'']) w1
             else if \<not> py_truthy is_fully_connected then
               display (St_error [Lit ''Extension must be connected first'']) w1
             else start_recording_with_extension e session_name session_description w1)
          else w1)"

subsection \<open>\<^verbatim>\<open>get_recording_status\<close>\<close>

definition session_request :: "json \<Rightarrow> request" where
  "session_request session_id =
     \<lparr>verb = GET, url = [Lit BACKEND_API_URL, Lit ''/recorder/sessions/'', Fmt session_id],
      json_payload = None, timeout = 5\<rparr>"

definition action_line :: "nat \<Rightarrow> json \<Rightarrow> json \<Rightarrow> ui_event" where
  "action_line i ty descr =
     St_write [Fmt (JInt (int i)), Lit ''. **'', Fmt ty, Lit ''**: '', Fmt descr]"

text \<open>The loop \<^verbatim>\<open>for i, action in enumerate(actions[-5:], 1)\<close>, from index \<open>i\<close> on.\<close>

fun show_actions :: "nat \<Rightarrow> json list \<Rightarrow> world \<Rightarrow> (exn + unit) \<times> world" where
  "show_actions i [] w = (Inr (), w)"
| "show_actions i (action # rest) w =
     (case py_item action ''type'' of
        Inl x \<Rightarrow> (Inl x, w)
      | Inr ty \<Rightarrow>
          (case py_get action ''description'' (JStr ''No description'') of
             Inl x \<Rightarrow> (Inl x, w)
           | Inr descr \<Rightarrow> show_actions (Suc i) rest (display (action_line i ty descr) w)))"

definition status_body :: "http_outcome \<Rightarrow> world \<Rightarrow> (exn + unit) \<times> world" where
  "status_body out w =
     (case out of
        Raises x \<Rightarrow> (Inl x, w)
      | Responds r \<Rightarrow>
          if status_code r = 200 then
            (case response_json r of
               Inl x \<Rightarrow> (Inl x, w)
             | Inr session_data \<Rightarrow>
                 (case py_get session_data ''session'' (JObj []) of
                    Inl x \<Rightarrow> (Inl x, w)
                  | Inr session \<Rightarrow>
                      (case py_get session ''actions'' (JArr []) of
                         Inl x \<Rightarrow> (Inl x, w)
                       | Inr actions \<Rightarrow>
                           (case py_len actions of
                              Inl x \<Rightarrow> (Inl x, w)
                            | Inr actions_count \<Rightarrow>
                                if actions_count > 0 then
                                  (let w1 = display (St_success [Lit ''Captured '',
                                              Fmt (JInt (int actions_count)),
                                              Lit '' actions so far'']) w
                                   in case py_last5 actions of
                                        Inl x \<Rightarrow> (Inl x, w1)
                                      | Inr recent \<Rightarrow> show_actions 1 recent w1)
                                else
                                  (Inr (), display (St_info [Lit ''No actions captured yet - make sure your extension is connected and active'']) w)))))
          else (Inr (), display (St_warning [Lit ''Could not fetch recording status: '',
                                            Fmt (JInt (status_code r))]) w))"

definition get_recording_status :: "env \<Rightarrow> world \<Rightarrow> world" where
  "get_recording_status e w =
     (case session_state w ''recording_session_id'' of
        None \<Rightarrow> w
      | Some session_id \<Rightarrow>
          let rq = session_request session_id in
          (case status_body (backend e rq) (issue rq w) of
             (Inl x, w1) \<Rightarrow> display (St_error [Lit ''Error getting recording status: '', FmtExn x]) w1
           | (Inr u, w1) \<Rightarrow> w1))"

subsection \<open>\<^verbatim>\<open>stop_recording\<close>\<close>

definition stop_request :: request where
  "stop_request = \<lparr>verb = POST, url = [Lit BACKEND_API_URL, Lit ''/recorder/stop''],
     json_payload = None, timeout = 10\<rparr>"

text \<open>
  The body of the \<^verbatim>\<open>try\<close>. On status 200 the session dictionary is updated first; the two
  messages that follow read three more keys of the session and may still raise.
\<close>

definition stop_body :: "http_outcome \<Rightarrow> world \<Rightarrow> (exn + unit) \<times> world" where
  "stop_body out w =
     (case out of
        Raises x \<Rightarrow> (Inl x, w)
      | Responds r \<Rightarrow>
          if status_code r = 200 then
            (case response_json r of
               Inl x \<Rightarrow> (Inl x, w)
             | Inr data \<Rightarrow>
                 (case py_item data ''session'' of
                    Inl x \<Rightarrow> (Inl x, w)
                  | Inr session \<Rightarrow>
                      let w1 = w\<lparr>session_state := (session_state w)
                                 (''last_completed_session'' \<mapsto> session,
                                  ''recording_session_id'' := None,
                                  ''recording_session_name'' := None)\<rparr>
                      in (case py_item session ''name'' of
                            Inl x \<Rightarrow> (Inl x, w1)
                          | Inr name \<Rightarrow>
                              let w2 = display (St_success [Lit ''Recording stopped: '', Fmt name]) w1
                              in (case py_item session ''actionsCount'' of
                                    Inl x \<Rightarrow> (Inl x, w2)
                                  | Inr count \<Rightarrow>
                                      (case py_item session ''duration'' of
                                         Inl x \<Rightarrow> (Inl x, w2)
                                       | Inr duration \<Rightarrow>
                                           (case py_floordiv duration 1000 of
                                              Inl x \<Rightarrow> (Inl x, w2)
                                            | Inr seconds \<Rightarrow>
                                                (Inr (), display (St_info [Lit ''Recorded '', Fmt count,
                                                   Lit '' actions in '', seconds, Lit '' seconds'']) w2)))))))
          else
            (case response_json r of
               Inl x \<Rightarrow> (Inl x, w)
             | Inr data \<Rightarrow>
                 (case py_get data ''error'' (JStr ''Unknown error'') of
                    Inl x \<Rightarrow> (Inl x, w)
                  | Inr err \<Rightarrow>
                      (Inr (), display (St_error [Lit ''Failed to stop recording: '', Fmt err]) w))))"

definition stop_recording :: "env \<Rightarrow> world \<Rightarrow> world" where
  "stop_recording e w =
     (case stop_body (backend e stop_request) (issue stop_request w) of
        (Inl x, w1) \<Rightarrow> display (St_error [Lit ''Error stopping recording: '', FmtExn x]) w1
      | (Inr u, w1) \<Rightarrow> w1)"

subsection \<open>String and path helpers of the Python library\<close>

text \<open>
  \<^verbatim>\<open>s.replace(old, new)\<close>: every occurrence, found from the left, without overlap. With
  an empty \<open>old\<close> Python puts \<open>new\<close> around every character.
\<close>

function replace_nonempty :: "string \<Rightarrow> string \<Rightarrow> string \<Rightarrow> string" where
  "replace_nonempty old new [] = []"
| "replace_nonempty old new (c # cs) =
     (if old \<noteq> [] \<and> prefix old (c # cs)
      then new @ replace_nonempty old new (drop (length old) (c # cs))
      else c # replace_nonempty old new cs)"
  by pat_completeness auto
termination
  by (relation "measure (\<lambda>(old, new, s). length s)") auto

definition str_replace :: "string \<Rightarrow> string \<Rightarrow> string \<Rightarrow> string" where
  "str_replace old new s =
     (if old = [] then new @ concat (map (\<lambda>c. c # new) s) else replace_nonempty old new s)"

text \<open>
  \<^verbatim>\<open>s.lower()\<close> on code points below 256: the ASCII capitals, and the Latin-1 capitals
  U+00C0 to U+00DE without the multiplication sign U+00D7, move up by 32.
\<close>

definition str_lower :: "string \<Rightarrow> string" where
  "str_lower s = map (\<lambda>c. let n = (of_char c :: nat) in
                          if (65 \<le> n \<and> n \<le> 90) \<or> (192 \<le> n \<and> n \<le> 222 \<and> n \<noteq> 215)
                          then char_of (n + 32) else c) s"

text \<open>
  \<^verbatim>\<open>s.strip()\<close> removes the characters for which \<^verbatim>\<open>str.isspace\<close> holds; below 256 these are
  U+0009 to U+000D, U+001C to U+0020, U+0085 and U+00A0.
\<close>

definition is_space :: "char \<Rightarrow> bool" where
  "is_space c = (let n = (of_char c :: nat) in
                   (9 \<le> n \<and> n \<le> 13) \<or> (28 \<le> n \<and> n \<le> 32) \<or> n = 133 \<or> n = 160)"

definition str_strip :: "string \<Rightarrow> string" where
  "str_strip s = rev (dropWhile is_space (rev (dropWhile is_space s)))"

text \<open>\<^verbatim>\<open>os.path.join(path, *rest)\<close> of \<^verbatim>\<open>posixpath\<close>.\<close>

fun os_path_join :: "string \<Rightarrow> string list \<Rightarrow> string" where
  "os_path_join path [] = path"
| "os_path_join path (b # bs) =
     os_path_join (if prefix ''/'' b then b
                   else if path = [] \<or> suffix ''/'' path then path @ b
                   else path @ ''/'' @ b) bs"

definition ascii_lowercase :: string where
  "ascii_lowercase = ''abcdefghijklmnopqrstuvwxyz''"

definition digits :: string where
  "digits = ''0123456789''"

text \<open>
  \<^verbatim>\<open>random.choices(population, k=k)\<close>: \<open>k\<close> independent picks; the \<open>i\<close>-th draw of the
  generator selects an index into the population.
\<close>

definition random_choices :: "(nat \<Rightarrow> nat) \<Rightarrow> 'a list \<Rightarrow> nat \<Rightarrow> 'a list" where
  "random_choices draws population k =
     map (\<lambda>i. population ! (draws i mod length population)) [0..<k]"

subsection \<open>\<^verbatim>\<open>save_local_copy\<close>\<close>

text \<open>
  \<open>tool_code\<close> is what the backend sent under \<^verbatim>\<open>toolCode\<close>; the annotation \<^verbatim>\<open>str\<close> is not
  enforced, so it is kept as a JSON value. The other three arguments come from text
  inputs and from the caller's session id and are strings.
\<close>

definition enhanced_tool_code :: \<open>string \<Rightarrow> string \<Rightarrow> json \<Rightarrow> string \<Rightarrow> string \<Rightarrow> fstring\<close> where
  \<open>enhanced_tool_code tool_name tool_description tool_code session_id clean_name =
     [Lit ''"""\<newline>'',
      Lit tool_description,
      Lit ''\<newline>'',
      Lit ''\<newline>'',
      Lit ''Generated from browser recording session: '',
      Lit session_id,
      Lit ''\<newline>'',
      Lit ''Tool Name: '',
      Lit tool_name,
      Lit ''\<newline>'',
      Lit ''"""\<newline>'',
      Lit ''\<newline>'',
      Fmt tool_code,
      Lit ''\<newline>'',
      Lit ''\<newline>'',
      Lit ''# Tool metadata for agent integration\<newline>'',
      Lit ''TOOL_METADATA = {\<newline>'',
      Lit ''    "name": "'',
      Lit tool_name,
      Lit ''",\<newline>'',
      Lit ''    "description": "'',
      Lit tool_description,
      Lit ''",\<newline>'',
      Lit ''    "generated_from_recording": True,\<newline>'',
      Lit ''    "recording_session_id": "'',
      Lit session_id,
      Lit ''",\<newline>'',
      Lit ''    "file_name": "'',
      Lit clean_name,
      Lit ''",\<newline>'',
      Lit ''    "registered_as_agent": True\<newline>'',
      Lit ''}\<newline>'']\<close>

definition local_metadata :: "string \<Rightarrow> string \<Rightarrow> string \<Rightarrow> string \<Rightarrow> string \<Rightarrow> json" where
  "local_metadata tool_name tool_description clean_name session_id now =
     JObj [(''name'', JStr tool_name),
           (''description'', JStr tool_description),
           (''file_name'', JStr clean_name),
           (''generated_from_recording'', JBool True),
           (''recording_session_id'', JStr session_id),
           (''created_at'', JStr now),
           (''type'', JStr ''browser_automation''),
           (''registered_as_agent'', JBool True)]"

definition random_suffix :: "env \<Rightarrow> string" where
  "random_suffix e = random_choices (random_draws e) (ascii_lowercase @ digits) 8"

definition clean_name :: "env \<Rightarrow> string" where
  "clean_name e = ''browser_tool_'' @ random_suffix e @ ''.py''"

definition tools_dir :: "env \<Rightarrow> string" where
  "tools_dir e = os_path_join (module_dir e) [''..'', ''agent-resources'', ''tools'']"

definition tool_path :: "env \<Rightarrow> string" where
  "tool_path e = os_path_join (tools_dir e) [clean_name e]"

definition metadata_path :: "env \<Rightarrow> string" where
  "metadata_path e =
     os_path_join (tools_dir e) [str_replace ''.py'' ''_metadata.json'' (clean_name e)]"

text \<open>
  A file operation is logged when it is attempted; \<open>fs_succeeds\<close> says whether it
  raises. Any exception ends \<^verbatim>\<open>save_local_copy\<close> with \<^verbatim>\<open>False\<close>.
\<close>

definition attempt :: "fs_op \<Rightarrow> world \<Rightarrow> world" where
  "attempt op w = w\<lparr>fs_ops := fs_ops w @ [op]\<rparr>"

definition save_local_copy ::
    "env \<Rightarrow> string \<Rightarrow> string \<Rightarrow> json \<Rightarrow> string \<Rightarrow> world \<Rightarrow> bool \<times> world" where
  "save_local_copy e tool_name tool_description tool_code session_id w =
     (let mk = Makedirs (tools_dir e);
          wr_tool = Write_file (tool_path e)
                      (Text (enhanced_tool_code tool_name tool_description tool_code
                               session_id (clean_name e)));
          wr_meta = Write_file (metadata_path e)
                      (Json_dump (local_metadata tool_name tool_description (clean_name e)
                                    session_id (strftime_local e)) 2);
          w1 = attempt mk w
      in if \<not> fs_succeeds e mk then (False, w1)
         else let w2 = attempt wr_tool w1
              in if \<not> fs_succeeds e wr_tool then (False, w2)
                 else let w3 = attempt wr_meta w2
                      in if \<not> fs_succeeds e wr_meta then (False, w3)
                         else (True, w3))"

subsection \<open>\<^verbatim>\<open>save_tool_to_resources\<close>\<close>

text \<open>The wrapper source sent to the backend; \<^verbatim>\<open>tool_code.replace\<close> needs a string.\<close>

definition agent_code_text :: \<open>string \<Rightarrow> string \<Rightarrow> string \<Rightarrow> string\<close> where
  \<open>agent_code_text tool_description session_id code =
     concat
          [''"""\<newline>'',
           tool_description,
           ''\<newline>'',
           ''\<newline>'',
           ''Generated from browser recording session: '',
           session_id,
           ''\<newline>'',
           ''This agent executes the recorded browser automation workflow.\<newline>'',
           ''"""\<newline>'',
           ''\<newline>'',
           ''import asyncio\<newline>'',
           ''from pydantic_ai import Agent\<newline>'',
           ''from pydantic_ai.models.openai import OpenAIModel\<newline>'',
           ''\<newline>'',
           ''# Initialize the agent\<newline>'',
           ''browser_automation_agent = Agent(\<newline>'',
           ''    model=OpenAIModel("gpt-4o-mini"),\<newline>'',
           ''    system_prompt="""You are a browser automation agent that executes recorded workflows.\<newline>'',
           ''    Your primary function is to execute the browser automation sequence that was recorded."""\<newline>'',
           '')\<newline>'',
           ''\<newline>'',
           ''@browser_automation_agent.tool\<newline>'',
           ''async def execute_recorded_workflow() -> str:\<newline>'',
           ''    """Execute the recorded browser automation workflow"""\<newline>'',
           ''    try:\<newline>'',
           ''        import requests\<newline>'',
           ''        \<newline>'',
           ''        # The recorded workflow execution\<newline>'',
           ''        # This is the actual recorded code:\<newline>'',
           ''        '',
           str_replace ''def '' ''def _original_'' code,
           ''\<newline>'',
           ''        \<newline>'',
           ''        # Execute the original recorded function\<newline>'',
           ''        result = _original_execute_recorded_action()\<newline>'',
           ''        return f"Browser automation completed successfully: {result}"\<newline>'',
           ''        \<newline>'',
           ''    except Exception as e:\<newline>'',
           ''        return f"Browser automation failed: {str(e)}"\<newline>'',
           ''\<newline>'',
           ''# Main execution function for MCP integration\<newline>'',
           ''async def run_agent(params: dict = None):\<newline>'',
           ''    """Main function to run the browser automation agent"""\<newline>'',
           ''    try:\<newline>'',
           ''        result = await browser_automation_agent.run("Execute the recorded browser workflow")\<newline>'',
           ''        return {\<newline>'',
           ''            "success": True,\<newline>'',
           ''            "result": result.data,\<newline>'',
           ''            "type": "browser_automation",\<newline>'',
           ''            "session_id": "'',
           session_id,
           ''"\<newline>'',
           ''        }\<newline>'',
           ''    except Exception as e:\<newline>'',
           ''        return {\<newline>'',
           ''            "success": False,\<newline>'',
           ''            "error": str(e),\<newline>'',
           ''            "type": "browser_automation",\<newline>'',
           ''            "session_id": "'',
           session_id,
           ''"\<newline>'',
           ''        }\<newline>'',
           ''\<newline>'',
           ''# For backward compatibility\<newline>'',
           ''def execute_recorded_action():\<newline>'',
           ''    """Legacy function name"""\<newline>'',
           ''    return asyncio.run(run_agent())\<newline>'']\<close>

definition agent_code :: "string \<Rightarrow> string \<Rightarrow> json \<Rightarrow> exn + string" where
  "agent_code tool_description session_id tool_code =
     (case tool_code of
        JStr code \<Rightarrow> Inr (agent_code_text tool_description session_id code)
      | _ \<Rightarrow> Inl AttributeError)"

definition register_payload :: "string \<Rightarrow> string \<Rightarrow> string \<Rightarrow> string \<Rightarrow> string \<Rightarrow> json" where
  "register_payload tool_name tool_description code session_id now =
     JObj [(''name'', JStr tool_name),
           (''description'', JStr (tool_description @ '' (Generated from recording '' @ session_id @ '')'')),
           (''code'', JStr code),
           (''tools'', JArr [JStr (''execute_'' @ str_replace '' '' ''_'' (str_lower tool_name) @ ''_workflow'')]),
           (''metadata'', JObj [(''generated_from_recording'', JBool True),
                                (''recording_session_id'', JStr session_id),
                                (''created_at'', JStr now),
                                (''type'', JStr ''browser_automation'')])]"

definition register_request :: "json \<Rightarrow> request" where
  "register_request payload =
     \<lparr>verb = POST, url = [Lit BACKEND_API_URL, Lit ''/agents/register''],
      json_payload = Some payload, timeout = 30\<rparr>"

definition save_tool_to_resources ::
    "env \<Rightarrow> string \<Rightarrow> string \<Rightarrow> json \<Rightarrow> string \<Rightarrow> world \<Rightarrow> bool \<times> world" where
  "save_tool_to_resources e tool_name tool_description tool_code session_id w =
     (if tool_name = [] \<or> \<not> py_truthy tool_code \<or> session_id = [] then (False, w)
      else
        (case agent_code tool_description session_id tool_code of
           Inl x \<Rightarrow> save_local_copy e tool_name tool_description tool_code session_id w
         | Inr code \<Rightarrow>
             let rq = register_request (register_payload tool_name tool_description code
                                          session_id (strftime_register e));
                 w1 = issue rq w
             in (case backend e rq of
                   Raises x \<Rightarrow>
                     save_local_copy e tool_name tool_description tool_code session_id w1
                 | Responds r \<Rightarrow>
                     if status_code r = 200 then
                       (True, snd (save_local_copy e tool_name tool_description tool_code
                                     session_id w1))
                     else save_local_copy e tool_name tool_description tool_code
                            session_id w1)))"

subsection \<open>\<^verbatim>\<open>generate_tool_code\<close>\<close>

text \<open>
  What the widgets of the form return is an input of the run: the two text inputs and
  the three buttons. \<^verbatim>\<open>st.rerun()\<close> leaves the function through Streamlit's control
  exception, which \<^verbatim>\<open>except Exception\<close> does not catch; the model returns \<open>Rerun\<close> then.
  Layout calls (columns, expanders, dividers) are not logged.
\<close>

record gen_widgets =
  tool_name_input :: string
  tool_description_input :: string
  save_button :: bool
  new_recording_button :: bool
  view_all_button :: bool

datatype control = Returned | Rerun

datatype fetched = Early_return | Continue "response option"

definition generation_key :: "string \<Rightarrow> string" where
  "generation_key session_id = ''tool_generation_'' @ session_id"

definition name_key :: "string \<Rightarrow> string" where
  "name_key session_id = ''tools_tab_tool_name_'' @ session_id"

definition desc_key :: "string \<Rightarrow> string" where
  "desc_key session_id = ''tools_tab_tool_desc_'' @ session_id"

definition generate_request :: "string \<Rightarrow> request" where
  "generate_request session_id =
     \<lparr>verb = POST,
      url = [Lit BACKEND_API_URL, Lit ''/recorder/sessions/'', Lit session_id, Lit ''/generate-tool''],
      json_payload = None, timeout = 30\<rparr>"

definition tool_data_of :: "json \<Rightarrow> string \<Rightarrow> json" where
  "tool_data_of code session_id =
     JObj [(''tool_code'', code),
           (''generated'', JBool True),
           (''tool_name'', JStr (''browser_automation_'' @ take 6 session_id)),
           (''tool_description'', JStr ''Automated browser workflow generated from recorded session'')]"

text \<open>
  Lines 1002-1015: the backend is asked only when nothing is stored under the key of
  this session id. The response, when there is one, stays in scope for the last branch
  of the function.
\<close>

definition fetch_tool_code :: "env \<Rightarrow> string \<Rightarrow> world \<Rightarrow> (exn + fetched) \<times> world" where
  "fetch_tool_code e session_id w =
     (if generation_key session_id \<notin> dom (session_state w) then
        (let rq = generate_request session_id; w1 = issue rq w in
         case backend e rq of
           Raises x \<Rightarrow> (Inl x, w1)
         | Responds r \<Rightarrow>
             if status_code r = 200 then
               (case response_json r of
                  Inl x \<Rightarrow> (Inl x, w1)
                | Inr data \<Rightarrow>
                    (case py_item data ''toolCode'' of
                       Inl x \<Rightarrow> (Inl x, w1)
                     | Inr code \<Rightarrow>
                         (Inr (Continue (Some r)),
                          w1\<lparr>session_state := (session_state w1)
                               (generation_key session_id \<mapsto> tool_data_of code session_id)\<rparr>)))
             else
               (Inr Early_return,
                display (St_error [Lit ''Failed to generate tool: '', Fmt (JInt (status_code r))]) w1))
      else (Inr (Continue None), w))"

text \<open>\<^verbatim>\<open>if key not in st.session_state: st.session_state[key] = tool_data[field]\<close>\<close>

definition init_key :: "string \<Rightarrow> json \<Rightarrow> string \<Rightarrow> world \<Rightarrow> (exn + unit) \<times> world" where
  "init_key key tool_data field w =
     (if key \<notin> dom (session_state w) then
        (case py_item tool_data field of
           Inl x \<Rightarrow> (Inl x, w)
         | Inr v \<Rightarrow> (Inr (), w\<lparr>session_state := (session_state w)(key \<mapsto> v)\<rparr>))
      else (Inr (), w))"

definition enhanced_code :: \<open>string \<Rightarrow> string \<Rightarrow> json \<Rightarrow> string \<Rightarrow> fstring\<close> where
  \<open>enhanced_code tool_name tool_description tool_code session_id =
     [Lit ''"""\<newline>'',
      Lit tool_description,
      Lit ''\<newline>'',
      Lit ''\<newline>'',
      Lit ''Generated from browser recording session: '',
      Lit session_id,
      Lit ''\<newline>'',
      Lit ''Tool Name: '',
      Lit tool_name,
      Lit ''\<newline>'',
      Lit ''"""\<newline>'',
      Lit ''\<newline>'',
      Fmt tool_code,
      Lit ''\<newline>'',
      Lit ''\<newline>'',
      Lit ''# Tool metadata for agent integration\<newline>'',
      Lit ''TOOL_METADATA = {\<newline>'',
      Lit ''    "name": "'',
      Lit tool_name,
      Lit ''",\<newline>'',
      Lit ''    "description": "'',
      Lit tool_description,
      Lit ''",\<newline>'',
      Lit ''    "generated_from_recording": True,\<newline>'',
      Lit ''    "recording_session_id": "'',
      Lit session_id,
      Lit ''",\<newline>'',
      Lit ''}\<newline>'']\<close>

definition usage_instructions :: \<open>string\<close> where
  \<open>usage_instructions =
     concat
          [''\<newline>'',
           ''                **To use this generated tool:**\<newline>'',
           ''                \<newline>'',
           ''                1. **Save the code**: Download or copy the generated Python code\<newline>'',
           ''                2. **Add to agent resources**: Place the file in your `agent-resources/tools/` directory\<newline>'',
           ''                3. **Update agent**: Your AI agents can now use this tool automatically\<newline>'',
           ''                4. **Test the tool**: Run the function to make sure it works as expected\<newline>'',
           ''                \<newline>'',
           ''                **Example usage in agent:**\<newline>'',
           ''                ```python\<newline>'',
           ''                # The agent can now call this tool automatically\<newline>'',
           ''                result = execute_your_recorded_action()\<newline>'',
           ''                print(result)\<newline>'',
           ''                ```\<newline>'',
           ''                '']\<close>

text \<open>The handler of the save button (lines 1091-1103).\<close>

definition save_clicked :: "env \<Rightarrow> string \<Rightarrow> string \<Rightarrow> json \<Rightarrow> string \<Rightarrow> world \<Rightarrow> world" where
  "save_clicked e tool_name tool_description tool_code session_id w =
     (let w1 = fold display [St_balloons, St_write [Lit ''BUTTON CLICKED - PROCESSING...'']] w in
      if str_strip tool_name = [] then display (St_error [Lit ''Tool name is required!'']) w1
      else
        (case save_tool_to_resources e tool_name tool_description tool_code session_id w1 of
           (save_success, w2) \<Rightarrow>
             if save_success then
               fold display
                 [St_success [Lit ''Tool '', Lit [CHR 0x27], Lit tool_name, Lit [CHR 0x27],
                              Lit '' saved successfully!''],
                  St_info [Lit ''Check the Tools page Local Tools tab to see your saved tool!'']] w2
             else display (St_error [Lit ''Failed to save tool.'']) w2))"

text \<open>
  The last branch of the function (lines 1146-1159), taken when nothing is stored under
  the key after the first block. It reads the local variable \<^verbatim>\<open>response\<close>, which exists
  only when the first block asked the backend.
\<close>

definition report_generation_failure :: "response option \<Rightarrow> world \<Rightarrow> (exn + control) \<times> world" where
  "report_generation_failure resp w =
     (case resp of
        None \<Rightarrow> (Inl UnboundLocalError, w)
      | Some r \<Rightarrow>
          let fallback = [Lit ''HTTP '', Fmt (JInt (status_code r)), Lit '' - '',
                          Lit (take 200 (body_text r))];
              error_detail =
                (case response_json r of
                   Inl x \<Rightarrow> fallback
                 | Inr (JObj kvs) \<Rightarrow>
                     (case map_of kvs ''error'' of
                        Some v \<Rightarrow> [Fmt v]
                      | None \<Rightarrow> [Lit ''HTTP '', Fmt (JInt (status_code r))])
                 | Inr _ \<Rightarrow> fallback)
          in (Inr Returned,
              fold display
                [St_error (Lit ''Failed to generate tool: '' # error_detail),
                 St_write [Lit ''Status Code: '', Fmt (JInt (status_code r))],
                 St_write [Lit ''Response: '', Lit (take 500 (body_text r))]] w))"

text \<open>Lines 1018-1144: the form shown for a stored generation.\<close>

definition render_tool ::
    "env \<Rightarrow> gen_widgets \<Rightarrow> string \<Rightarrow> response option \<Rightarrow> world \<Rightarrow> (exn + control) \<times> world" where
  "render_tool e g session_id resp w =
     (case session_state w (generation_key session_id) of
        None \<Rightarrow> report_generation_failure resp w
      | Some tool_data \<Rightarrow>
          (case py_item tool_data ''tool_code'' of
             Inl x \<Rightarrow> (Inl x, w)
           | Inr tool_code \<Rightarrow>
               let w1 = fold display [St_success [Lit ''Tool code generated successfully!''],
                                      St_markdown [Lit ''#### Customize Your Tool'']] w
               in (case init_key (name_key session_id) tool_data ''tool_name'' w1 of
                     (Inl x, w2) \<Rightarrow> (Inl x, w2)
                   | (Inr u, w2) \<Rightarrow>
                       let tool_name = tool_name_input g
                       in (case init_key (desc_key session_id) tool_data ''tool_description'' w2 of
                             (Inl x, w3) \<Rightarrow> (Inl x, w3)
                           | (Inr u, w3) \<Rightarrow>
                               let tool_description = tool_description_input g;
                                   w4 = fold display
                                          [St_markdown [Lit ''**Actions:**''],
                                           St_download_button
                                             (enhanced_code tool_name tool_description tool_code session_id)
                                             [Lit (str_replace '' '' ''_'' (str_lower tool_name)), Lit ''.py'']] w3;
                                   w5 = (if save_button g
                                         then save_clicked e tool_name tool_description tool_code session_id w4
                                         else w4);
                                   w6 = fold display
                                          [St_markdown [Lit ''#### Generated Python Tool''],
                                           St_code tool_code,
                                           St_markdown [Lit usage_instructions]] w5
                               in if new_recording_button g then
                                    (Inr Rerun,
                                     w6\<lparr>session_state := (session_state w6)
                                          (''last_completed_session'' := None,
                                           ''selected_session_for_tool'' := None)\<rparr>)
                                  else if view_all_button g then
                                    (Inr Rerun,
                                     w6\<lparr>session_state := (session_state w6)
                                          (''last_completed_session'' := None)\<rparr>)
                                  else (Inr Returned, w6)))))"

definition generate_body ::
    "env \<Rightarrow> gen_widgets \<Rightarrow> string \<Rightarrow> world \<Rightarrow> (exn + control) \<times> world" where
  "generate_body e g session_id w =
     (case fetch_tool_code e session_id w of
        (Inl x, w1) \<Rightarrow> (Inl x, w1)
      | (Inr Early_return, w1) \<Rightarrow> (Inr Returned, w1)
      | (Inr (Continue resp), w1) \<Rightarrow> render_tool e g session_id resp w1)"

definition generate_tool_code :: "env \<Rightarrow> gen_widgets \<Rightarrow> string \<Rightarrow> world \<Rightarrow> control \<times> world" where
  "generate_tool_code e g session_id w =
     (case generate_body e g session_id w of
        (Inr c, w1) \<Rightarrow> (c, w1)
      | (Inl x, w1) \<Rightarrow>
          (Returned,
           (case x of
              Timeout \<Rightarrow>
                display (St_error [Lit ''Tool generation timed out. The session may be too large or the backend is overloaded. Please try again.'']) w1
            | ConnectionError \<Rightarrow>
                display (St_error [Lit ''Could not connect to backend. Please check that the MyMCP.me backend is running.'']) w1
            | _ \<Rightarrow>
                fold display [St_error [Lit ''Error generating tool: '', FmtExn x], St_exception x] w1)))"

section \<open>Notions used in the statements\<close>

text \<open>A request has failed when the transport raised or the status is not 200.\<close>

definition request_failed :: "http_outcome \<Rightarrow> bool" where
  "request_failed out = (case out of Raises x \<Rightarrow> True | Responds r \<Rightarrow> status_code r \<noteq> 200)"

text \<open>What a call appended to a log: the log after the call, without the log before it.\<close>

definition since :: "'a list \<Rightarrow> 'a list \<Rightarrow> 'a list" where
  "since before after = drop (length before) after"

text \<open>The client is idle when it holds no active-session identifiers.\<close>

definition idle :: "world \<Rightarrow> bool" where
  "idle w = (session_state w ''recording_session_id'' = None \<and>
             session_state w ''recording_session_name'' = None)"

definition is_start_request :: "request \<Rightarrow> bool" where
  "is_start_request rq =
     (verb rq = POST \<and> url rq = [Lit BACKEND_API_URL, Lit ''/recorder/start''])"

definition is_generate_request :: "request \<Rightarrow> bool" where
  "is_generate_request rq =
     (verb rq = POST \<and>
      (case url rq of
         [Lit b, Lit p, Lit s, Lit q] \<Rightarrow>
           b = BACKEND_API_URL \<and> p = ''/recorder/sessions/'' \<and> q = ''/generate-tool''
       | _ \<Rightarrow> False))"

text \<open>The tool code a run displayed with \<^verbatim>\<open>st.code\<close>.\<close>

fun shown_code :: "ui_event list \<Rightarrow> json list" where
  "shown_code [] = []"
| "shown_code (St_code c # evs) = c # shown_code evs"
| "shown_code (ev # evs) = shown_code evs"

text \<open>
  An action record as the data model has it: a dict with a \<^verbatim>\<open>type\<close>. The line the status
  view prints for the \<open>i\<close>-th listed record is its number, its type between asterisks
  and its description, or \<^verbatim>\<open>No description\<close> when it has none. An entry that is not an
  action record stops the listing: a dict without \<^verbatim>\<open>type\<close> with a KeyError, anything else
  with a TypeError.
\<close>

fun action_record :: "json \<Rightarrow> bool" where
  "action_record (JObj kvs) = (map_of kvs ''type'' \<noteq> None)"
| "action_record _ = False"

fun line_of :: "nat \<times> json \<Rightarrow> ui_event" where
  "line_of (i, JObj kvs) =
     St_write [Fmt (JInt (int i)), Lit ''. **'',
               Fmt (case map_of kvs ''type'' of Some ty \<Rightarrow> ty | None \<Rightarrow> JNull),
               Lit ''**: '',
               Fmt (case map_of kvs ''description'' of Some d \<Rightarrow> d
                    | None \<Rightarrow> JStr ''No description'')]"
| "line_of (i, _) = St_write []"

fun listing_error :: "json list \<Rightarrow> ui_event list" where
  "listing_error [] = []"
| "listing_error (JObj kvs # rest) =
     [St_error [Lit ''Error getting recording status: '', FmtExn (KeyError ''type'')]]"
| "listing_error (bad # rest) =
     [St_error [Lit ''Error getting recording status: '', FmtExn TypeError]]"

subsection \<open>Concrete runs\<close>

definition fresh_world :: world where
  "fresh_world = \<lparr>session_state = Map.empty, ui = [], requests = [], fs_ops = []\<rparr>"

definition env_answering :: "http_outcome \<Rightarrow> env" where
  "env_answering out =
     \<lparr>backend = (\<lambda>rq. out),
      strftime_register = ''2025-03-01 10:00:00'',
      strftime_local = ''2025-03-01 10:00:01'',
      random_draws = (\<lambda>i. 5 * i + 2),
      module_dir = ''/srv/app/pages'',
      fs_succeeds = (\<lambda>op. True)\<rparr>"

definition answer :: "int \<Rightarrow> json \<Rightarrow> http_outcome" where
  "answer code body =
     Responds \<lparr>status_code = code, content_type = Some ''application/json'',
               body_text = [], json_result = Some body\<rparr>"

definition recording_world :: world where
  "recording_world =
     \<lparr>session_state = [''recording_session_id'' \<mapsto> JStr ''s-42'',
                        ''recording_session_name'' \<mapsto> JStr ''Login Flow''],
      ui = [], requests = [], fs_ops = []\<rparr>"

definition quiet_widgets :: gen_widgets where
  "quiet_widgets =
     \<lparr>tool_name_input = ''login-tool'', tool_description_input = ''Logs into example.com'',
      save_button = False, new_recording_button = False, view_all_button = False\<rparr>"

definition six_actions :: "json list" where
  "six_actions =
     [JObj [(''type'', JStr ''navigate''), (''description'', JStr ''Navigate to https://example.com'')],
      JObj [(''type'', JStr ''click''), (''description'', JStr ''Click on Sign in'')],
      JObj [(''type'', JStr ''type''), (''description'', JStr ''Type into Email field'')],
      JObj [(''type'', JStr ''type'')],
      JObj [(''type'', JStr ''click''), (''description'', JStr ''Click on Submit'')],
      JObj [(''type'', JStr ''wait''), (''description'', JStr ''Wait 2 seconds'')]]"

definition two_actions :: "json list" where
  "two_actions =
     [JObj [(''type'', JStr ''navigate''), (''description'', JStr ''Navigate to https://example.com'')],
      JObj [(''type'', JStr ''click'')]]"

section \<open>Frame lemmas\<close>

lemma since_append [simp]: "since xs (xs @ ys) = ys"
  by (simp add: since_def)

lemma since_same [simp]: "since xs xs = []"
  by (simp add: since_def)

lemma display_frame [simp]:
  "session_state (display ev w) = session_state w"
  "requests (display ev w) = requests w"
  "fs_ops (display ev w) = fs_ops w"
  "ui (display ev w) = ui w @ [ev]"
  by (simp_all add: display_def)

lemma issue_frame [simp]:
  "session_state (issue rq w) = session_state w"
  "requests (issue rq w) = requests w @ [rq]"
  "fs_ops (issue rq w) = fs_ops w"
  "ui (issue rq w) = ui w"
  by (simp_all add: issue_def)

section \<open>Connection gate\<close>

text \<open>
  C5. \<^verbatim>\<open>check_extension_connection\<close> never raises: its result is a status and nothing
  else, every exception of the body being a branch that ends in the all-false status.
  When the transport raises (timeout, connection refused, anything) or the status is
  not 200, the result is the status with every field false.
\<close>

theorem check_connection_all_false_on_failure:
  "request_failed (backend e status_request) \<Longrightarrow>
     check_extension_connection e w = (all_false, issue status_request w)"
  by (auto simp: check_extension_connection_def read_status_def request_failed_def
      all_false_def py_and_def split: http_outcome.splits)

theorem check_connection_all_false_on_failure_witness:
  "request_failed (backend (env_answering (Raises Timeout)) status_request) \<and>
   request_failed (backend (env_answering (answer 503 JNull)) status_request) \<and>
   fst (check_extension_connection (env_answering (Raises Timeout)) fresh_world) = all_false \<and>
   fst (check_extension_connection (env_answering (answer 503 JNull)) fresh_world) = all_false"
  using check_connection_all_false_on_failure [of "env_answering (Raises Timeout)" fresh_world]
    check_connection_all_false_on_failure [of "env_answering (answer 503 JNull)" fresh_world]
  by (simp add: request_failed_def env_answering_def answer_def)

section \<open>Session lifecycle\<close>

lemma start_body_requests: "requests (snd (start_body out n w)) = requests w"
  by (auto simp: start_body_def Let_def recording_started_notes_def split: http_outcome.splits sum.splits)

lemma start_requests:
  "requests (start_recording_with_extension e n d w) = requests w @ [start_request n d]"
proof -
  obtain res w1 where b: "start_body (backend e (start_request n d)) n (issue (start_request n d) w) = (res, w1)"
    by (cases "start_body (backend e (start_request n d)) n (issue (start_request n d) w)")
  have "requests w1 = requests w @ [start_request n d]"
    using start_body_requests [of "backend e (start_request n d)" n "issue (start_request n d) w"] b
    by simp
  then show ?thesis
    using b by (cases res) (simp_all add: start_recording_with_extension_def Let_def)
qed

lemma check_world: "snd (check_extension_connection e w) = issue status_request w"
  by (auto simp: check_extension_connection_def Let_def split: sum.splits)

lemma check_ready_eq: "fully_connected (fst (check_extension_connection e w)) = recording_ready (fst (check_extension_connection e w))"
  by (auto simp: check_extension_connection_def Let_def all_false_def split: sum.splits)

lemma is_start_status [simp]: "\<not> is_start_request status_request"
  by (simp add: is_start_request_def status_request_def)

lemma is_start_start [simp]: "is_start_request (start_request n d)"
  by (simp add: is_start_request_def start_request_def)

lemma handler_requests:
  "requests (show_recorder_interface_start e name descr pressed w) =
     requests w @ status_request #
       (if pressed \<and> name \<noteq> [] \<and> py_truthy (recording_ready (fst (check_extension_connection e w)))
        then [start_request name descr] else [])"
proof -
  obtain cs w1 where c: "check_extension_connection e w = (cs, w1)"
    by (cases "check_extension_connection e w")
  have w1: "w1 = issue status_request w" using check_world [of e w] c by simp
  have rdy: "fully_connected cs = recording_ready cs" using check_ready_eq [of e w] c by simp
  show ?thesis
    using c w1 rdy
    by (simp add: show_recorder_interface_start_def Let_def start_requests)
qed

lemma handler_rejected_state:
  assumes "name = [] \<or> \<not> py_truthy (recording_ready (fst (check_extension_connection e w)))"
  shows "session_state (show_recorder_interface_start e name descr pressed w) = session_state w"
proof -
  obtain cs w1 where c: "check_extension_connection e w = (cs, w1)"
    by (cases "check_extension_connection e w")
  have w1: "w1 = issue status_request w" using check_world [of e w] c by simp
  have rdy: "fully_connected cs = recording_ready cs" using check_ready_eq [of e w] c by simp
  show ?thesis
    using c w1 rdy assms
    by (auto simp add: show_recorder_interface_start_def Let_def)
qed

text \<open>
  C4. The start button of the recorder page sends the session-create request only when
  the name is not empty and \<open>recording_ready\<close> of the connection status, checked in the
  same run, is true. With an empty name nothing is sent to \<^verbatim>\<open>/recorder/start\<close> whatever the
  connection status is; with \<open>recording_ready\<close> false nothing is sent even for a name
  that is not empty. In both cases the session dictionary is left as it was.
\<close>

theorem start_gated_by_name_and_readiness:
  "filter is_start_request
     (since (requests w) (requests (show_recorder_interface_start e name descr pressed w))) =
     (if pressed \<and> name \<noteq> [] \<and> py_truthy (recording_ready (fst (check_extension_connection e w)))
      then [start_request name descr] else [])
   \<and> (name = [] \<or> \<not> py_truthy (recording_ready (fst (check_extension_connection e w))) \<longrightarrow>
        filter is_start_request
          (since (requests w) (requests (show_recorder_interface_start e name descr pressed w))) = []
        \<and> session_state (show_recorder_interface_start e name descr pressed w) = session_state w)"
  using handler_rejected_state [of name e w descr pressed]
  by (auto simp: handler_requests)

theorem start_gated_by_name_and_readiness_witness:
  "filter is_start_request
     (since (requests fresh_world)
        (requests (show_recorder_interface_start (env_answering (answer 200 (JObj [(''connected'', JBool True)])))
           [] ''no name'' True fresh_world))) = []
   \<and> \<not> py_truthy (recording_ready (fst (check_extension_connection
          (env_answering (answer 200 (JObj [(''connected'', JBool False)]))) fresh_world)))
   \<and> filter is_start_request
     (since (requests fresh_world)
        (requests (show_recorder_interface_start (env_answering (answer 200 (JObj [(''connected'', JBool False)])))
           ''Login Flow'' [] True fresh_world))) = []"
  using start_gated_by_name_and_readiness [of fresh_world "env_answering (answer 200 (JObj [(''connected'', JBool True)]))" "[]" "''no name''" True]
    start_gated_by_name_and_readiness [of fresh_world "env_answering (answer 200 (JObj [(''connected'', JBool False)]))" "''Login Flow''" "[]" True]
  by (simp add: check_extension_connection_def read_status_def env_answering_def answer_def
      response_json_def Let_def)

text \<open>
  C10. Without \<^verbatim>\<open>recording_session_id\<close> in the session dictionary,
  \<^verbatim>\<open>get_recording_status\<close> returns at once: no request, nothing displayed, nothing changed.
\<close>

theorem poll_without_session_is_noop:
  "session_state w ''recording_session_id'' = None \<Longrightarrow> get_recording_status e w = w"
  by (simp add: get_recording_status_def)

theorem poll_without_session_is_noop_witness:
  "session_state fresh_world ''recording_session_id'' = None \<and>
   get_recording_status (env_answering (answer 200 JNull)) fresh_world = fresh_world"
  using poll_without_session_is_noop [of fresh_world "env_answering (answer 200 JNull)"]
  by (simp add: fresh_world_def)

text \<open>
  C6. When the backend answers the stop request with status 200 and a body holding a
  session, \<^verbatim>\<open>recording_session_id\<close> and \<^verbatim>\<open>recording_session_name\<close> are gone from the
  session dictionary afterwards, \<^verbatim>\<open>last_completed_session\<close> holds the session the backend
  returned, and no other key has changed.
\<close>

theorem stop_success_clears_active_session:
  assumes "backend e stop_request = Responds r" and "status_code r = 200"
    and "json_result r = Some (JObj data)" and "map_of data ''session'' = Some session"
  shows "session_state (stop_recording e w) =
           (session_state w)(''last_completed_session'' \<mapsto> session,
              ''recording_session_id'' := None, ''recording_session_name'' := None)
         \<and> session_state (stop_recording e w) ''recording_session_id'' = None
         \<and> session_state (stop_recording e w) ''recording_session_name'' = None
         \<and> session_state (stop_recording e w) ''last_completed_session'' = Some session"
proof -
  have "session_state (stop_recording e w) =
           (session_state w)(''last_completed_session'' \<mapsto> session,
              ''recording_session_id'' := None, ''recording_session_name'' := None)"
    using assms
    by (auto simp: stop_recording_def stop_body_def response_json_def Let_def
        split: sum.splits prod.splits)
  then show ?thesis by simp
qed

theorem stop_success_clears_active_session_witness:
  "session_state recording_world ''recording_session_id'' = Some (JStr ''s-42'') \<and>
   session_state (stop_recording
       (env_answering (answer 200 (JObj [(''session'', JObj [(''name'', JStr ''Login Flow'')])])))
       recording_world) ''recording_session_id'' = None \<and>
   session_state (stop_recording
       (env_answering (answer 200 (JObj [(''session'', JObj [(''name'', JStr ''Login Flow'')])])))
       recording_world) ''recording_session_name'' = None \<and>
   session_state (stop_recording
       (env_answering (answer 200 (JObj [(''session'', JObj [(''name'', JStr ''Login Flow'')])])))
       recording_world) ''last_completed_session'' = Some (JObj [(''name'', JStr ''Login Flow'')])"
  using stop_success_clears_active_session
    [of "env_answering (answer 200 (JObj [(''session'', JObj [(''name'', JStr ''Login Flow'')])]))"
        "\<lparr>status_code = 200, content_type = Some ''application/json'', body_text = [],
          json_result = Some (JObj [(''session'', JObj [(''name'', JStr ''Login Flow'')])])\<rparr>"
        "[(''session'', JObj [(''name'', JStr ''Login Flow'')])]"
        "JObj [(''name'', JStr ''Login Flow'')]" recording_world]
  by (simp add: env_answering_def answer_def recording_world_def)

text \<open>
  C7. A start or stop request that fails (the transport raises, or the status is not
  200) changes nothing in the session dictionary: the only effect besides the request
  itself is one \<^verbatim>\<open>st.error\<close> message. So after a failed start an idle client is still
  idle, with no active-session identifiers stored, and after a failed stop the
  identifiers and the last-completed slot are what they were.
\<close>

theorem failed_start_or_stop_keeps_state:
  "(request_failed (backend e (start_request name descr)) \<longrightarrow>
      (\<exists>msg. start_recording_with_extension e name descr w =
                display (St_error msg) (issue (start_request name descr) w))
      \<and> session_state (start_recording_with_extension e name descr w) = session_state w
      \<and> (idle w \<longrightarrow> idle (start_recording_with_extension e name descr w)))
   \<and> (request_failed (backend e stop_request) \<longrightarrow>
      (\<exists>msg. stop_recording e w = display (St_error msg) (issue stop_request w))
      \<and> session_state (stop_recording e w) = session_state w)"
proof -
  have a: "\<exists>msg. start_recording_with_extension e name descr w =
                display (St_error msg) (issue (start_request name descr) w)"
    if "request_failed (backend e (start_request name descr))"
    using that
    by (auto simp: start_recording_with_extension_def start_body_def request_failed_def Let_def
        split: http_outcome.splits sum.splits)
  have b: "\<exists>msg. stop_recording e w = display (St_error msg) (issue stop_request w)"
    if "request_failed (backend e stop_request)"
    using that
    by (auto simp: stop_recording_def stop_body_def request_failed_def Let_def
        split: http_outcome.splits sum.splits)
  have a': "session_state (start_recording_with_extension e name descr w) = session_state w"
    if "request_failed (backend e (start_request name descr))"
    using a [OF that] by auto
  have b': "session_state (stop_recording e w) = session_state w"
    if "request_failed (backend e stop_request)"
    using b [OF that] by auto
  have c: "idle w \<longrightarrow> idle (start_recording_with_extension e name descr w)"
    if "request_failed (backend e (start_request name descr))"
    using a' [OF that] by (simp add: idle_def)
  from a a' b b' c show ?thesis by blast
qed

theorem failed_start_or_stop_keeps_state_witness:
  "request_failed (backend (env_answering (Raises ConnectionError)) (start_request ''Login Flow'' [])) \<and>
   session_state (start_recording_with_extension (env_answering (Raises ConnectionError))
      ''Login Flow'' [] fresh_world) = session_state fresh_world \<and>
   idle fresh_world \<and>
   idle (start_recording_with_extension (env_answering (Raises ConnectionError))
      ''Login Flow'' [] fresh_world) \<and>
   request_failed (backend (env_answering (answer 500 (JObj [(''error'', JStr ''no session'')]))) stop_request) \<and>
   session_state (stop_recording (env_answering (answer 500 (JObj [(''error'', JStr ''no session'')])))
      recording_world) = session_state recording_world"
  using failed_start_or_stop_keeps_state
     [of "env_answering (Raises ConnectionError)" "''Login Flow''" "[]" fresh_world]
    failed_start_or_stop_keeps_state
     [of "env_answering (answer 500 (JObj [(''error'', JStr ''no session'')]))" _ _ recording_world]
  by (simp add: request_failed_def env_answering_def answer_def idle_def fresh_world_def)

lemma show_actions_listing:
  "show_actions i as w =
     (case dropWhile action_record as of
        [] \<Rightarrow> Inr ()
      | JObj kvs # rest \<Rightarrow> Inl (KeyError ''type'')
      | bad # rest \<Rightarrow> Inl TypeError,
      w\<lparr>ui := ui w @ map line_of (enumerate i (takeWhile action_record as))\<rparr>)"
proof (induction as arbitrary: i w)
  case Nil
  then show ?case by simp
next
  case (Cons a as)
  show ?case
  proof (cases "action_record a")
    case True
    then obtain kvs ty where a: "a = JObj kvs" "map_of kvs ''type'' = Some ty"
      by (cases a) auto
    show ?thesis
      using a Cons.IH [of "Suc i" "display (line_of (i, a)) w"]
      by (simp add: display_def action_line_def)
  next
    case False
    then show ?thesis
      by (cases a) (auto split: option.splits)
  qed
qed

lemma status_body_listing:
  assumes "status_code r = 200" and "json_result r = Some (JObj data)"
    and "map_of data ''session'' = Some (JObj session)"
    and "map_of session ''actions'' = Some (JArr actions)"
    and "actions \<noteq> []"
  shows "status_body (Responds r) w =
     (case dropWhile action_record (drop (length actions - 5) actions) of
        [] \<Rightarrow> Inr ()
      | JObj kvs # rest \<Rightarrow> Inl (KeyError ''type'')
      | bad # rest \<Rightarrow> Inl TypeError,
      w\<lparr>ui := ui w @
        St_success [Lit ''Captured '', Fmt (JInt (int (length actions))), Lit '' actions so far'']
        # map line_of (enumerate 1 (takeWhile action_record (drop (length actions - 5) actions)))\<rparr>)"
  using assms
  by (simp add: status_body_def response_json_def display_def show_actions_listing)

lemma status_body_empty:
  assumes "status_code r = 200" and "json_result r = Some (JObj data)"
    and "map_of data ''session'' = Some (JObj session)"
    and "map_of session ''actions'' = Some (JArr [])"
  shows "status_body (Responds r) w =
     (Inr (), display (St_info [Lit ''No actions captured yet - make sure your extension is connected and active'']) w)"
  using assms by (simp add: status_body_def response_json_def)

lemma listing_all_records:
  "list_all action_record as \<Longrightarrow> takeWhile action_record as = as \<and> dropWhile action_record as = []"
  by (induction as) auto

text \<open>
  C9, as the code has it. A status request answered with 200 and a session holding a
  list of actions: when the list is not empty the number reported is its length (the
  \<^verbatim>\<open>actionsCount\<close> field of the session is not read), and when it is empty the view shows
  the notice that no action was captured yet and no number. After the number come the
  last five entries of the list as the backend returned it, in its order, numbered from
  1, each with its type and its description; a list of at most five entries is shown
  whole. When the entries are action records this is all that is displayed; otherwise
  the listing stops at the first entry that is none, with one error message.
\<close>

theorem poll_shows_sequence_length_and_last_five:
  assumes "session_state w ''recording_session_id'' = Some sid"
    and "backend e (session_request sid) = Responds r" and "status_code r = 200"
    and "json_result r = Some (JObj data)"
    and "map_of data ''session'' = Some (JObj session)"
    and "map_of session ''actions'' = Some (JArr actions)"
  shows "since (ui w) (ui (get_recording_status e w)) =
           (if actions = [] then
              [St_info [Lit ''No actions captured yet - make sure your extension is connected and active'']]
            else St_success [Lit ''Captured '', Fmt (JInt (int (length actions))), Lit '' actions so far'']
                 # map line_of (enumerate 1 (takeWhile action_record (drop (length actions - 5) actions)))
                 @ listing_error (dropWhile action_record (drop (length actions - 5) actions)))
         \<and> (list_all action_record actions \<and> actions \<noteq> [] \<longrightarrow>
              since (ui w) (ui (get_recording_status e w)) =
                St_success [Lit ''Captured '', Fmt (JInt (int (length actions))), Lit '' actions so far'']
                # map line_of (enumerate 1 (drop (length actions - 5) actions)))
         \<and> (length actions \<le> 5 \<longrightarrow> drop (length actions - 5) actions = actions)
         \<and> length (drop (length actions - 5) actions) = min 5 (length actions)"
proof -
  let ?recent = "drop (length actions - 5) actions"
  have main: "since (ui w) (ui (get_recording_status e w)) =
           (if actions = [] then
              [St_info [Lit ''No actions captured yet - make sure your extension is connected and active'']]
            else St_success [Lit ''Captured '', Fmt (JInt (int (length actions))), Lit '' actions so far'']
                 # map line_of (enumerate 1 (takeWhile action_record ?recent))
                 @ listing_error (dropWhile action_record ?recent))"
  proof (cases "actions = []")
    case True
    with assms status_body_empty [OF assms(3,4,5), of "issue (session_request sid) w"]
    show ?thesis by (simp add: get_recording_status_def Let_def)
  next
    case False
    note body = status_body_listing [OF assms(3-6) False, of "issue (session_request sid) w"]
    show ?thesis
    proof (cases "dropWhile action_record ?recent")
      case Nil
      with body assms(1,2) False show ?thesis
        by (simp add: get_recording_status_def Let_def del: dropWhile_eq_Nil_conv)
    next
      case (Cons bad rest)
      with body assms(1,2) False show ?thesis
        by (cases bad) (simp_all add: get_recording_status_def Let_def)
    qed
  qed
  have special: "since (ui w) (ui (get_recording_status e w)) =
                St_success [Lit ''Captured '', Fmt (JInt (int (length actions))), Lit '' actions so far'']
                # map line_of (enumerate 1 ?recent)"
    if "list_all action_record actions" "actions \<noteq> []"
  proof -
    from that(1) have "list_all action_record ?recent"
      by (auto simp: list_all_iff dest: in_set_dropD)
    from listing_all_records [OF this]
    have tk: "takeWhile action_record ?recent = ?recent"
      and dr: "dropWhile action_record ?recent = []" by blast+
    from main that(2) show ?thesis
      unfolding tk dr by simp
  qed
  from main special show ?thesis by auto
qed

theorem poll_shows_sequence_length_and_last_five_witness:
  "list_all action_record six_actions \<and>
   since (ui recording_world)
     (ui (get_recording_status
            (env_answering (answer 200 (JObj [(''session'', JObj [(''actions'', JArr six_actions)])])))
            recording_world)) =
     [St_success [Lit ''Captured '', Fmt (JInt 6), Lit '' actions so far''],
      St_write [Fmt (JInt 1), Lit ''. **'', Fmt (JStr ''click''), Lit ''**: '',
                Fmt (JStr ''Click on Sign in'')],
      St_write [Fmt (JInt 2), Lit ''. **'', Fmt (JStr ''type''), Lit ''**: '',
                Fmt (JStr ''Type into Email field'')],
      St_write [Fmt (JInt 3), Lit ''. **'', Fmt (JStr ''type''), Lit ''**: '',
                Fmt (JStr ''No description'')],
      St_write [Fmt (JInt 4), Lit ''. **'', Fmt (JStr ''click''), Lit ''**: '',
                Fmt (JStr ''Click on Submit'')],
      St_write [Fmt (JInt 5), Lit ''. **'', Fmt (JStr ''wait''), Lit ''**: '',
                Fmt (JStr ''Wait 2 seconds'')]]"
proof -
  let ?e = "env_answering (answer 200 (JObj [(''session'', JObj [(''actions'', JArr six_actions)])]))"
  let ?r = "\<lparr>status_code = 200, content_type = Some ''application/json'', body_text = [],
             json_result = Some (JObj [(''session'', JObj [(''actions'', JArr six_actions)])])\<rparr>"
  have held: "session_state recording_world ''recording_session_id'' = Some (JStr ''s-42'')"
    by (simp add: recording_world_def)
  have answered: "backend ?e (session_request (JStr ''s-42'')) = Responds ?r"
    by (simp add: env_answering_def answer_def)
  have records: "list_all action_record six_actions"
    by (simp add: six_actions_def)
  have some: "six_actions \<noteq> []"
    by (simp add: six_actions_def)
  have ok: "status_code ?r = 200" by simp
  have body: "json_result ?r = Some (JObj [(''session'', JObj [(''actions'', JArr six_actions)])])"
    by simp
  have session: "map_of [(''session'', JObj [(''actions'', JArr six_actions)])] ''session'' =
      Some (JObj [(''actions'', JArr six_actions)])" by simp
  have actions: "map_of [(''actions'', JArr six_actions)] ''actions'' = Some (JArr six_actions)"
    by simp
  note run = poll_shows_sequence_length_and_last_five [OF held answered ok body session actions]
  from run records some
  have "since (ui recording_world) (ui (get_recording_status ?e recording_world)) =
          St_success [Lit ''Captured '', Fmt (JInt (int (length six_actions))), Lit '' actions so far'']
          # map line_of (enumerate 1 (drop (length six_actions - 5) six_actions))"
    by blast
  also have "\<dots> = [St_success [Lit ''Captured '', Fmt (JInt 6), Lit '' actions so far''],
      St_write [Fmt (JInt 1), Lit ''. **'', Fmt (JStr ''click''), Lit ''**: '',
                Fmt (JStr ''Click on Sign in'')],
      St_write [Fmt (JInt 2), Lit ''. **'', Fmt (JStr ''type''), Lit ''**: '',
                Fmt (JStr ''Type into Email field'')],
      St_write [Fmt (JInt 3), Lit ''. **'', Fmt (JStr ''type''), Lit ''**: '',
                Fmt (JStr ''No description'')],
      St_write [Fmt (JInt 4), Lit ''. **'', Fmt (JStr ''click''), Lit ''**: '',
                Fmt (JStr ''Click on Submit'')],
      St_write [Fmt (JInt 5), Lit ''. **'', Fmt (JStr ''wait''), Lit ''**: '',
                Fmt (JStr ''Wait 2 seconds'')]]"
    by (simp add: six_actions_def)
  finally show ?thesis using records by simp
qed

text \<open>
  Reporting the session's \<^verbatim>\<open>actionsCount\<close> on every successful poll is not what the code
  does. A session with \<^verbatim>\<open>actionsCount\<close> 10 and two actions is reported as two captured
  actions; a session with \<^verbatim>\<open>actionsCount\<close> 0 and no action gets the notice only, and no
  count.
\<close>

theorem poll_count_ignores_actionsCount_counterexample:
  "since (ui recording_world)
     (ui (get_recording_status
            (env_answering (answer 200 (JObj [(''session'',
               JObj [(''actionsCount'', JInt 10), (''actions'', JArr two_actions)])])))
            recording_world)) =
     [St_success [Lit ''Captured '', Fmt (JInt 2), Lit '' actions so far''],
      St_write [Fmt (JInt 1), Lit ''. **'', Fmt (JStr ''navigate''), Lit ''**: '',
                Fmt (JStr ''Navigate to https://example.com'')],
      St_write [Fmt (JInt 2), Lit ''. **'', Fmt (JStr ''click''), Lit ''**: '',
                Fmt (JStr ''No description'')]]
   \<and> since (ui recording_world)
     (ui (get_recording_status
            (env_answering (answer 200 (JObj [(''session'',
               JObj [(''actionsCount'', JInt 0), (''actions'', JArr [])])])))
            recording_world)) =
     [St_info [Lit ''No actions captured yet - make sure your extension is connected and active'']]"
  by (simp add: get_recording_status_def status_body_def response_json_def session_request_def
      recording_world_def env_answering_def answer_def two_actions_def display_def issue_def
      action_line_def since_def Let_def)

section \<open>Tool persister\<close>

text \<open>
  C8. With an empty tool name, an empty tool code or an empty session id,
  \<^verbatim>\<open>save_tool_to_resources\<close> returns \<^verbatim>\<open>False\<close> and the world is what it was: no request, no
  file operation, nothing displayed.
\<close>

theorem save_rejects_empty_input:
  "tool_name = [] \<or> tool_code = JStr [] \<or> session_id = [] \<Longrightarrow>
     save_tool_to_resources e tool_name tool_description tool_code session_id w = (False, w)"
  by (auto simp: save_tool_to_resources_def)

theorem save_rejects_empty_input_witness:
  "save_tool_to_resources (env_answering (answer 200 JNull)) [] ''d'' (JStr ''def run(): pass'') ''s-42''
      fresh_world = (False, fresh_world) \<and>
   save_tool_to_resources (env_answering (answer 200 JNull)) ''login-tool'' ''d'' (JStr []) ''s-42''
      fresh_world = (False, fresh_world) \<and>
   save_tool_to_resources (env_answering (answer 200 JNull)) ''login-tool'' ''d'' (JStr ''def run(): pass'') []
      fresh_world = (False, fresh_world)"
  using save_rejects_empty_input [of "[]" "JStr ''def run(): pass''" "''s-42''" "env_answering (answer 200 JNull)" "''d''" fresh_world]
    save_rejects_empty_input [of "''login-tool''" "JStr []" "''s-42''" "env_answering (answer 200 JNull)" "''d''" fresh_world]
    save_rejects_empty_input [of "''login-tool''" "JStr ''def run(): pass''" "[]" "env_answering (answer 200 JNull)" "''d''" fresh_world]
  by simp

lemma random_choices_length: "length (random_choices d pop k) = k"
  by (simp add: random_choices_def)

lemma random_choices_set: "pop \<noteq> [] \<Longrightarrow> set (random_choices d pop k) \<subseteq> set pop"
  by (auto simp: random_choices_def)

lemma random_suffix_shape:
  "length (random_suffix e) = 8 \<and> set (random_suffix e) \<subseteq> set (ascii_lowercase @ digits)"
  using random_choices_set [of "ascii_lowercase @ digits" "random_draws e" 8]
  by (simp add: random_suffix_def random_choices_length ascii_lowercase_def digits_def)

lemma replace_final_extension:
  "CHR ''.'' \<notin> set s \<Longrightarrow> replace_nonempty ''.py'' new (s @ ''.py'') = s @ new"
  by (induction s) auto

lemma clean_name_no_dot: "CHR ''.'' \<notin> set (''browser_tool_'' @ random_suffix e)"
  using random_suffix_shape [of e]
  by (auto simp: ascii_lowercase_def digits_def)

lemma metadata_name:
  "str_replace ''.py'' ''_metadata.json'' (clean_name e) =
     ''browser_tool_'' @ random_suffix e @ ''_metadata.json''"
  using replace_final_extension [OF clean_name_no_dot [of e], of "''_metadata.json''"]
  by (simp add: str_replace_def clean_name_def)

lemma suffix_single: "suffix [a] xs \<longleftrightarrow> xs \<noteq> [] \<and> last xs = a"
proof
  assume "suffix [a] xs"
  then obtain zs where "xs = zs @ [a]" by (auto simp: suffix_def)
  then show "xs \<noteq> [] \<and> last xs = a" by simp
next
  assume "xs \<noteq> [] \<and> last xs = a"
  then have "xs = butlast xs @ [a]" by (metis append_butlast_last_id)
  then show "suffix [a] xs" by (metis suffixI)
qed

lemma tools_dir_eq:
  "tools_dir e = (if module_dir e = [] \<or> suffix ''/'' (module_dir e) then module_dir e
                  else module_dir e @ ''/'') @ ''../agent-resources/tools''"
  by (simp add: tools_dir_def suffix_single)

lemma tools_dir_open: "tools_dir e \<noteq> [] \<and> \<not> suffix ''/'' (tools_dir e)"
  by (simp add: tools_dir_eq suffix_single)

lemma tool_path_eq: "tool_path e = tools_dir e @ ''/browser_tool_'' @ random_suffix e @ ''.py''"
  by (simp add: tool_path_def clean_name_def tools_dir_open)

lemma metadata_path_eq:
  "metadata_path e = tools_dir e @ ''/browser_tool_'' @ random_suffix e @ ''_metadata.json''"
  by (simp add: metadata_path_def metadata_name tools_dir_open)


lemma save_local_copy_succeeds:
  assumes "\<forall>op. fs_succeeds e op"
  shows "save_local_copy e tool_name tool_description tool_code session_id w =
     (True, w\<lparr>fs_ops := fs_ops w @
        [Makedirs (tools_dir e),
         Write_file (tools_dir e @ ''/browser_tool_'' @ random_suffix e @ ''.py'')
           (Text (enhanced_tool_code tool_name tool_description tool_code session_id
                    (''browser_tool_'' @ random_suffix e @ ''.py''))),
         Write_file (tools_dir e @ ''/browser_tool_'' @ random_suffix e @ ''_metadata.json'')
           (Json_dump (local_metadata tool_name tool_description
                         (''browser_tool_'' @ random_suffix e @ ''.py'') session_id
                         (strftime_local e)) 2)]\<rparr>)"
  using assms
  by (simp add: save_local_copy_def Let_def attempt_def tool_path_eq metadata_path_eq clean_name_def)



text \<open>
  C2. Valid input (name, code and session id not empty) and a registration request that
  fails: \<^verbatim>\<open>save_tool_to_resources\<close> falls back to \<^verbatim>\<open>save_local_copy\<close>. When the file
  operations succeed it returns \<^verbatim>\<open>True\<close>, and what it did to the file system is: make the
  tools directory, write one source file \<^verbatim>\<open>browser_tool_<suffix>.py\<close> there and one
  metadata file \<^verbatim>\<open>browser_tool_<suffix>_metadata.json\<close> beside it, the suffix being eight
  characters drawn from the lowercase letters and the digits.
\<close>

theorem save_falls_back_to_local_files:
  assumes "tool_name \<noteq> []" and "tool_code = JStr code" and "code \<noteq> []" and "session_id \<noteq> []"
    and "request_failed (backend e (register_request (register_payload tool_name tool_description
            (agent_code_text tool_description session_id code) session_id (strftime_register e))))"
    and "\<forall>op. fs_succeeds e op"
  shows "fst (save_tool_to_resources e tool_name tool_description tool_code session_id w) = True
    \<and> since (fs_ops w)
         (fs_ops (snd (save_tool_to_resources e tool_name tool_description tool_code session_id w))) =
        [Makedirs (tools_dir e),
         Write_file (tools_dir e @ ''/browser_tool_'' @ random_suffix e @ ''.py'')
           (Text (enhanced_tool_code tool_name tool_description tool_code session_id
                    (''browser_tool_'' @ random_suffix e @ ''.py''))),
         Write_file (tools_dir e @ ''/browser_tool_'' @ random_suffix e @ ''_metadata.json'')
           (Json_dump (local_metadata tool_name tool_description
                         (''browser_tool_'' @ random_suffix e @ ''.py'') session_id
                         (strftime_local e)) 2)]
    \<and> length (random_suffix e) = 8
    \<and> set (random_suffix e) \<subseteq> set (ascii_lowercase @ digits)"
  using assms(1-5) random_suffix_shape [of e]
  by (auto simp: save_tool_to_resources_def agent_code_def Let_def request_failed_def
      save_local_copy_succeeds [OF assms(6)] split: http_outcome.splits)

theorem save_falls_back_to_local_files_witness:
  "request_failed (backend (env_answering (Raises ConnectionError))
      (register_request (register_payload ''login-tool'' ''Logs into example.com''
         (agent_code_text ''Logs into example.com'' ''s-42'' ''def run(): pass'') ''s-42''
         (strftime_register (env_answering (Raises ConnectionError)))))) \<and>
   (\<forall>op. fs_succeeds (env_answering (Raises ConnectionError)) op) \<and>
   fst (save_tool_to_resources (env_answering (Raises ConnectionError)) ''login-tool''
          ''Logs into example.com'' (JStr ''def run(): pass'') ''s-42'' fresh_world) = True \<and>
   length (since (fs_ops fresh_world)
        (fs_ops (snd (save_tool_to_resources (env_answering (Raises ConnectionError)) ''login-tool''
          ''Logs into example.com'' (JStr ''def run(): pass'') ''s-42'' fresh_world)))) = 3"
proof -
  let ?e = "env_answering (Raises ConnectionError)"
  have failed: "request_failed (backend ?e (register_request (register_payload ''login-tool''
        ''Logs into example.com''
        (agent_code_text ''Logs into example.com'' ''s-42'' ''def run(): pass'') ''s-42''
        (strftime_register ?e))))"
    by (simp add: request_failed_def env_answering_def)
  have fs: "\<forall>op. fs_succeeds ?e op" by (simp add: env_answering_def)
  have inputs: "''login-tool'' \<noteq> []" "''def run(): pass'' \<noteq> []" "''s-42'' \<noteq> []" by simp_all
  from save_falls_back_to_local_files
         [OF inputs(1) refl inputs(2) inputs(3) failed fs, of fresh_world] failed fs
  show ?thesis by simp
qed



section \<open>Tool generator\<close>

lemma save_local_copy_frame:
  "session_state (snd (save_local_copy e n d c s w)) = session_state w \<and>
   ui (snd (save_local_copy e n d c s w)) = ui w \<and>
   requests (snd (save_local_copy e n d c s w)) = requests w"
  by (simp add: save_local_copy_def Let_def attempt_def)

lemma is_generate_register [simp]: "\<not> is_generate_request (register_request p)"
  by (simp add: is_generate_request_def register_request_def)

lemma is_generate_generate [simp]: "is_generate_request (generate_request s)"
  by (simp add: is_generate_request_def generate_request_def)

lemma save_tool_frame:
  "session_state (snd (save_tool_to_resources e n d c s w)) = session_state w \<and>
   ui (snd (save_tool_to_resources e n d c s w)) = ui w \<and>
   (\<exists>rs. requests (snd (save_tool_to_resources e n d c s w)) = requests w @ rs \<and>
         filter is_generate_request rs = [])"
  using save_local_copy_frame [of e n d c s]
  by (auto simp: save_tool_to_resources_def Let_def split: sum.splits http_outcome.splits)

lemma save_clicked_frame:
  "session_state (save_clicked e n d c s w) = session_state w \<and>
   (\<exists>evs. ui (save_clicked e n d c s w) = ui w @ evs \<and> shown_code evs = []) \<and>
   (\<exists>rs. requests (save_clicked e n d c s w) = requests w @ rs \<and>
         filter is_generate_request rs = [])"
proof -
  let ?w1 = "fold display [St_balloons, St_write [Lit ''BUTTON CLICKED - PROCESSING...'']] w"
  obtain ok w2 where s: "save_tool_to_resources e n d c s ?w1 = (ok, w2)"
    by (cases "save_tool_to_resources e n d c s ?w1")
  from save_tool_frame [of e n d c s ?w1] s
  obtain rs where f: "session_state w2 = session_state w" "ui w2 = ui ?w1"
     "requests w2 = requests w @ rs" "filter is_generate_request rs = []"
    by auto
  show ?thesis
    using s f by (auto simp: save_clicked_def Let_def)
qed

lemma generation_key_distinct [simp]:
  "generation_key s \<noteq> name_key s'" "generation_key s \<noteq> desc_key s'"
  "generation_key s \<noteq> ''last_completed_session''"
  "generation_key s \<noteq> ''selected_session_for_tool''"
  "name_key s' \<noteq> generation_key s" "desc_key s' \<noteq> generation_key s"
  by (simp_all add: generation_key_def name_key_def desc_key_def)

lemma init_key_cached:
  "\<exists>w'. init_key k (tool_data_of code sid) ''tool_name'' w = (Inr (), w') \<and> ui w' = ui w \<and>
      requests w' = requests w \<and> (k \<noteq> g \<longrightarrow> session_state w' g = session_state w g)"
  "\<exists>w'. init_key k (tool_data_of code sid) ''tool_description'' w = (Inr (), w') \<and> ui w' = ui w \<and>
      requests w' = requests w \<and> (k \<noteq> g \<longrightarrow> session_state w' g = session_state w g)"
  by (auto simp: init_key_def tool_data_of_def)

lemma render_tool_cached:
  assumes "session_state w (generation_key sid) = Some (tool_data_of code sid)"
  shows "\<exists>c w' evs rs. render_tool e g sid resp w = (Inr c, w') \<and>
           ui w' = ui w @ evs \<and> shown_code evs = [code] \<and>
           requests w' = requests w @ rs \<and> filter is_generate_request rs = [] \<and>
           session_state w' (generation_key sid) = Some (tool_data_of code sid)"
proof -
  let ?td = "tool_data_of code sid"
  let ?w1 = "fold display [St_success [Lit ''Tool code generated successfully!''],
                            St_markdown [Lit ''#### Customize Your Tool'']] w"
  have tc: "py_item ?td ''tool_code'' = Inr code" by (simp add: tool_data_of_def)
  obtain w2 where w2: "init_key (name_key sid) ?td ''tool_name'' ?w1 = (Inr (), w2)"
     "ui w2 = ui ?w1" "requests w2 = requests ?w1"
     "session_state w2 (generation_key sid) = session_state ?w1 (generation_key sid)"
    using init_key_cached(1) [of "name_key sid" code sid ?w1 "generation_key sid"] by auto
  obtain w3 where w3: "init_key (desc_key sid) ?td ''tool_description'' w2 = (Inr (), w3)"
     "ui w3 = ui w2" "requests w3 = requests w2"
     "session_state w3 (generation_key sid) = session_state w2 (generation_key sid)"
    using init_key_cached(2) [of "desc_key sid" code sid w2 "generation_key sid"] by auto
  let ?n = "tool_name_input g" and ?d = "tool_description_input g"
  let ?w4 = "fold display
                [St_markdown [Lit ''**Actions:**''],
                 St_download_button (enhanced_code ?n ?d code sid)
                   [Lit (str_replace '' '' ''_'' (str_lower ?n)), Lit ''.py'']] w3"
  let ?w5 = "if save_button g then save_clicked e ?n ?d code sid ?w4 else ?w4"
  obtain evs5 rs5 where w5: "session_state ?w5 = session_state ?w4"
      "ui ?w5 = ui ?w4 @ evs5" "shown_code evs5 = []"
      "requests ?w5 = requests ?w4 @ rs5" "filter is_generate_request rs5 = []"
    using save_clicked_frame [of e ?n ?d code sid ?w4] by (cases "save_button g") auto
  let ?w6 = "fold display [St_markdown [Lit ''#### Generated Python Tool''], St_code code,
                            St_markdown [Lit usage_instructions]] ?w5"
  have ui6: "ui ?w6 = ui w @ ([St_success [Lit ''Tool code generated successfully!''],
                            St_markdown [Lit ''#### Customize Your Tool''],
                            St_markdown [Lit ''**Actions:**''],
                 St_download_button (enhanced_code ?n ?d code sid)
                   [Lit (str_replace '' '' ''_'' (str_lower ?n)), Lit ''.py'']] @ evs5 @
                 [St_markdown [Lit ''#### Generated Python Tool''], St_code code,
                            St_markdown [Lit usage_instructions]])"
    using w2(2) w3(2) w5(2) by simp
  have rq6: "requests ?w6 = requests w @ rs5"
    using w2(3) w3(3) w5(4) by simp
  have st6: "session_state ?w6 (generation_key sid) = Some ?td"
    using w2(4) w3(4) w5(1) assms by simp
  have sc: "shown_code ([St_success [Lit ''Tool code generated successfully!''],
                            St_markdown [Lit ''#### Customize Your Tool''],
                            St_markdown [Lit ''**Actions:**''],
                 St_download_button (enhanced_code ?n ?d code sid)
                   [Lit (str_replace '' '' ''_'' (str_lower ?n)), Lit ''.py'']] @ evs5 @
                 [St_markdown [Lit ''#### Generated Python Tool''], St_code code,
                            St_markdown [Lit usage_instructions]]) = [code]"
    using w5(3) by (induction evs5 rule: shown_code.induct) auto
  have r: "render_tool e g sid resp w =
      (if new_recording_button g then
         (Inr Rerun, ?w6\<lparr>session_state := (session_state ?w6)
            (''last_completed_session'' := None, ''selected_session_for_tool'' := None)\<rparr>)
       else if view_all_button g then
         (Inr Rerun, ?w6\<lparr>session_state := (session_state ?w6)(''last_completed_session'' := None)\<rparr>)
       else (Inr Returned, ?w6))"
    using assms tc w2(1) w3(1) by (simp add: render_tool_def Let_def)
  show ?thesis
    unfolding r using ui6 rq6 st6 sc w5(5)
    by (cases "new_recording_button g"; cases "view_all_button g") simp_all
qed




lemma fetch_cached:
  "session_state w (generation_key sid) = Some v \<Longrightarrow>
     fetch_tool_code e sid w = (Inr (Continue None), w)"
  by (auto simp: fetch_tool_code_def)

lemma fetch_fresh:
  assumes "generation_key sid \<notin> dom (session_state w)"
    and "backend e (generate_request sid) = Responds r" and "status_code r = 200"
    and "json_result r = Some (JObj data)" and "map_of data ''toolCode'' = Some code"
  shows "fetch_tool_code e sid w =
     (Inr (Continue (Some r)),
      (issue (generate_request sid) w)\<lparr>session_state := (session_state w)
          (generation_key sid \<mapsto> tool_data_of code sid)\<rparr>)"
  using assms by (simp add: fetch_tool_code_def Let_def response_json_def)

lemma generate_cached:
  assumes "session_state w (generation_key sid) = Some (tool_data_of code sid)"
  shows "\<exists>c w' evs rs. generate_tool_code e g sid w = (c, w') \<and>
           ui w' = ui w @ evs \<and> shown_code evs = [code] \<and>
           requests w' = requests w @ rs \<and> filter is_generate_request rs = [] \<and>
           session_state w' (generation_key sid) = Some (tool_data_of code sid)"
  using render_tool_cached [OF assms, of e g None] fetch_cached [OF assms, of e]
  by (auto simp: generate_tool_code_def generate_body_def)

lemma generate_fresh:
  assumes "generation_key sid \<notin> dom (session_state w)"
    and "backend e (generate_request sid) = Responds r" and "status_code r = 200"
    and "json_result r = Some (JObj data)" and "map_of data ''toolCode'' = Some code"
  shows "\<exists>c w' evs rs. generate_tool_code e g sid w = (c, w') \<and>
           ui w' = ui w @ evs \<and> shown_code evs = [code] \<and>
           requests w' = requests w @ generate_request sid # rs \<and>
           filter is_generate_request rs = [] \<and>
           session_state w' (generation_key sid) = Some (tool_data_of code sid)"
proof -
  let ?w1 = "(issue (generate_request sid) w)\<lparr>session_state := (session_state w)
          (generation_key sid \<mapsto> tool_data_of code sid)\<rparr>"
  have "session_state ?w1 (generation_key sid) = Some (tool_data_of code sid)" by simp
  from render_tool_cached [OF this, of e g "Some r"] fetch_fresh [OF assms]
  show ?thesis
    by (auto simp: generate_tool_code_def generate_body_def)
qed

text \<open>
  C1. The first call for a session id in a client session (nothing stored under its key)
  is answered with 200 and a body holding \<^verbatim>\<open>toolCode\<close>. Whatever happens afterwards, as long
  as the entry under the key is left alone, a second call for the same id displays the
  same tool code as the first, whatever the backend would answer now, and sends no
  generate-tool request: of the two calls, only the first sent one.
\<close>

theorem generate_twice_one_request:
  assumes "generation_key sid \<notin> dom (session_state w0)"
    and "backend e1 (generate_request sid) = Responds r" and "status_code r = 200"
    and "json_result r = Some (JObj data)" and "map_of data ''toolCode'' = Some code"
    and "generate_tool_code e1 g1 sid w0 = (c1, w1)"
    and "session_state w1' (generation_key sid) = session_state w1 (generation_key sid)"
    and "generate_tool_code e2 g2 sid w1' = (c2, w2)"
  shows "shown_code (since (ui w0) (ui w1)) = [code]
       \<and> shown_code (since (ui w1') (ui w2)) = [code]
       \<and> filter is_generate_request (since (requests w0) (requests w1)) = [generate_request sid]
       \<and> filter is_generate_request (since (requests w1') (requests w2)) = []"
proof -
  from generate_fresh [OF assms(1-5), of g1] assms(6)
  obtain evs rs where a: "ui w1 = ui w0 @ evs" "shown_code evs = [code]"
      "requests w1 = requests w0 @ generate_request sid # rs"
      "filter is_generate_request rs = []"
      "session_state w1 (generation_key sid) = Some (tool_data_of code sid)"
    by auto
  from a(5) assms(7) have "session_state w1' (generation_key sid) = Some (tool_data_of code sid)"
    by simp
  from generate_cached [OF this, of e2 g2] assms(8)
  obtain evs' rs' where b: "ui w2 = ui w1' @ evs'" "shown_code evs' = [code]"
      "requests w2 = requests w1' @ rs'" "filter is_generate_request rs' = []"
    by auto
  show ?thesis using a b by simp
qed

theorem generate_twice_one_request_witness:
  "generation_key ''s-42'' \<notin> dom (session_state fresh_world) \<and>
   shown_code (since (ui fresh_world)
      (ui (snd (generate_tool_code (env_answering (answer 200 (JObj [(''toolCode'', JStr ''def run(): pass'')])))
                  quiet_widgets ''s-42'' fresh_world)))) = [JStr ''def run(): pass''] \<and>
   shown_code (since
      (ui (snd (generate_tool_code (env_answering (answer 200 (JObj [(''toolCode'', JStr ''def run(): pass'')])))
                  quiet_widgets ''s-42'' fresh_world)))
      (ui (snd (generate_tool_code (env_answering (Raises Timeout)) quiet_widgets ''s-42''
         (snd (generate_tool_code (env_answering (answer 200 (JObj [(''toolCode'', JStr ''def run(): pass'')])))
                  quiet_widgets ''s-42'' fresh_world)))))) = [JStr ''def run(): pass''] \<and>
   filter is_generate_request (since
      (requests (snd (generate_tool_code (env_answering (answer 200 (JObj [(''toolCode'', JStr ''def run(): pass'')])))
                  quiet_widgets ''s-42'' fresh_world)))
      (requests (snd (generate_tool_code (env_answering (Raises Timeout)) quiet_widgets ''s-42''
         (snd (generate_tool_code (env_answering (answer 200 (JObj [(''toolCode'', JStr ''def run(): pass'')])))
                  quiet_widgets ''s-42'' fresh_world)))))) = []"
  using generate_twice_one_request [of "''s-42''" fresh_world
      "env_answering (answer 200 (JObj [(''toolCode'', JStr ''def run(): pass'')]))"
      "\<lparr>status_code = 200, content_type = Some ''application/json'', body_text = [],
        json_result = Some (JObj [(''toolCode'', JStr ''def run(): pass'')])\<rparr>"
      "[(''toolCode'', JStr ''def run(): pass'')]" "JStr ''def run(): pass''"
      quiet_widgets
      "fst (generate_tool_code (env_answering (answer 200 (JObj [(''toolCode'', JStr ''def run(): pass'')])))
                  quiet_widgets ''s-42'' fresh_world)"
      "snd (generate_tool_code (env_answering (answer 200 (JObj [(''toolCode'', JStr ''def run(): pass'')])))
                  quiet_widgets ''s-42'' fresh_world)"
      "snd (generate_tool_code (env_answering (answer 200 (JObj [(''toolCode'', JStr ''def run(): pass'')])))
                  quiet_widgets ''s-42'' fresh_world)"
      "env_answering (Raises Timeout)" quiet_widgets
      "fst (generate_tool_code (env_answering (Raises Timeout)) quiet_widgets ''s-42''
         (snd (generate_tool_code (env_answering (answer 200 (JObj [(''toolCode'', JStr ''def run(): pass'')])))
                  quiet_widgets ''s-42'' fresh_world)))"
      "snd (generate_tool_code (env_answering (Raises Timeout)) quiet_widgets ''s-42''
         (snd (generate_tool_code (env_answering (answer 200 (JObj [(''toolCode'', JStr ''def run(): pass'')])))
                  quiet_widgets ''s-42'' fresh_world)))"]
  by (simp add: fresh_world_def env_answering_def answer_def)

end
